theory Spec2Isabelle
  imports Complex_Main
begin

section \<open>Python values, exceptions and tensors\<close>

text \<open>
  The explainer is Python code over torch tensors. Every exception the source can raise
  is a value of \<open>py_error\<close>, and a fallible operation returns \<open>py_error + 'a\<close>.
  A float32 tensor is a list of reals, and rounding between two neighbouring floats is
  not modelled. Two effects of float32 are: \<open>torch.sigmoid\<close> returns exactly 1.0 and
  0.0 for large and small arguments, and a loss term can be inf or nan (torch does not
  raise there), which is the value \<open>None\<close> of a \<open>real option\<close>. The noise of the
  training sampler is kept in the reals: its logarithms are meaningful for a noise
  strictly between 0 and 1. Control flow never depends on a float value, so which
  exception is raised, and when, does not depend on how floats are modelled.
\<close>

datatype py_error = IndexError | ZeroDivisionError | RuntimeError | ValueError | TypeError

type_synonym 'a result = "py_error + 'a"

definition bind_result :: "'a result \<Rightarrow> ('a \<Rightarrow> 'b result) \<Rightarrow> 'b result" where
  "bind_result m f = (case m of Inl e \<Rightarrow> Inl e | Inr v \<Rightarrow> f v)"

text \<open>\<open>xs[i]\<close> for a list, tuple or the first axis of a tensor, with a natural index.\<close>

definition py_index :: "'a list \<Rightarrow> nat \<Rightarrow> 'a result" where
  "py_index xs i = (if i < length xs then Inr (xs ! i) else Inl IndexError)"

text \<open>
  A mask is a tensor of rank 0 or 1. \<open>squeeze\<close> is \<open>Tensor.squeeze()\<close> on the shape
  \<open>(1, E, 1)\<close> that the mask predictor returns: every axis of size 1 goes, so one
  edge leaves a tensor of rank 0, and any other edge count a vector.
\<close>

datatype tensor = Scalar real | Vec "real list"

definition squeeze :: "real list \<Rightarrow> tensor" where
  "squeeze xs = (if length xs = 1 then Scalar (hd xs) else Vec xs)"

text \<open>\<open>mask[i]\<close> and \<open>mask.size(0)\<close>: both raise IndexError on a tensor of rank 0.\<close>

fun tensor_index :: "tensor \<Rightarrow> nat \<Rightarrow> real result" where
  "tensor_index (Scalar x) i = Inl IndexError"
| "tensor_index (Vec xs) i = py_index xs i"

fun size0 :: "tensor \<Rightarrow> nat result" where
  "size0 (Scalar x) = Inl IndexError"
| "size0 (Vec xs) = Inr (length xs)"

fun tensor_sum :: "tensor \<Rightarrow> real" where
  "tensor_sum (Scalar x) = x"
| "tensor_sum (Vec xs) = sum_list xs"

fun tensor_entries :: "tensor \<Rightarrow> real list" where
  "tensor_entries (Scalar x) = [x]"
| "tensor_entries (Vec xs) = xs"

text \<open>
  \<open>torch.sigmoid\<close> on float32: the logistic function \<open>1 / (1 + exp (- x))\<close>, with the
  two ends where float32 leaves it. Once \<open>exp (- x)\<close> is at most \<open>1 / 2 ^ 24\<close>,
  half the gap between 1.0 and the next float, \<open>1 + exp (- x)\<close> is the float 1.0 and
  so is the result (from a logit of about 16.64 on). Once the value is at most
  \<open>1 / 2 ^ 150\<close>, half the smallest positive float, the result is 0.0 (logits below
  about -103.97).
\<close>

definition sigmoid :: "real \<Rightarrow> real" where
  "sigmoid x =
     (if exp (- x) \<le> 1 / 2 ^ 24 then 1
      else if 1 / (1 + exp (- x)) \<le> 1 / 2 ^ 150 then 0
      else 1 / (1 + exp (- x)))"

subsection \<open>Loss values\<close>

text \<open>
  A loss term is \<open>Some r\<close> for a finite float and \<open>None\<close> for inf or nan. No
  operation applied to a loss term turns inf or nan back into a finite value: sums,
  differences, products with a finite factor (a product of 0 and inf is nan) and
  quotients by a count (a quotient by the count 0 is inf or nan). \<open>flog\<close> is
  \<open>torch.log\<close>: \<open>-inf\<close> at 0 and nan below.
\<close>

definition fadd :: "real option \<Rightarrow> real option \<Rightarrow> real option" where
  "fadd a b = (case a of None \<Rightarrow> None
               | Some x \<Rightarrow> (case b of None \<Rightarrow> None | Some y \<Rightarrow> Some (x + y)))"

definition fsub :: "real option \<Rightarrow> real option \<Rightarrow> real option" where
  "fsub a b = (case a of None \<Rightarrow> None
               | Some x \<Rightarrow> (case b of None \<Rightarrow> None | Some y \<Rightarrow> Some (x - y)))"

definition fscale :: "real \<Rightarrow> real option \<Rightarrow> real option" where
  "fscale c v = (case v of None \<Rightarrow> None | Some x \<Rightarrow> Some (c * x))"

definition fdiv :: "real option \<Rightarrow> nat \<Rightarrow> real option" where
  "fdiv v k = (case v of None \<Rightarrow> None
               | Some x \<Rightarrow> if k = 0 then None else Some (x / real k))"

definition flog :: "real \<Rightarrow> real option" where
  "flog x = (if 0 < x then Some (ln x) else None)"

definition fsum :: "real option list \<Rightarrow> real option" where
  "fsum vs = fold (\<lambda>v a. fadd a v) vs (Some 0)"

text \<open>\<open>torch.mean\<close>: the sum over the number of entries, nan for no entry.\<close>

definition fmean :: "real option list \<Rightarrow> real option" where
  "fmean vs = fdiv (fsum vs) (length vs)"

text \<open>
  An edge list is a tensor of shape \<open>(2, E)\<close>, kept here as its \<open>E\<close> columns:
  \<open>graph[0]\<close> is \<open>map fst\<close>, \<open>graph[1]\<close> is \<open>map snd\<close>, \<open>graph.T[i]\<close> is the
  \<open>i\<close>-th pair and \<open>graph.size(1)\<close> the length. Node indices are natural numbers.
\<close>

type_synonym graph = "(nat \<times> nat) list"

section \<open>The explainer input builder\<close>

text \<open>\<open>embeds[idxs]\<close>: the rows of \<open>embeds\<close> picked by an index tensor.\<close>

definition index_rows :: "real list list \<Rightarrow> nat list \<Rightarrow> real list list result" where
  "index_rows embeds idxs =
     (if \<forall>i \<in> set idxs. i < length embeds then Inr (map (\<lambda>i. embeds ! i) idxs)
      else Inl IndexError)"

text \<open>\<open>torch.cat([a, b], 1)\<close> of two matrices with the same number of rows.\<close>

definition hcat :: "real list list \<Rightarrow> real list list \<Rightarrow> real list list" where
  "hcat a b = map2 (@) a b"

text \<open>\<open>PGExplainer.__init__\<close>, the width of the mask predictor's input.\<close>

definition expl_embedding :: "string \<Rightarrow> nat \<Rightarrow> nat" where
  "expl_embedding task embedding_size =
     (if task = ''graph'' then embedding_size * 2 else embedding_size * 3)"

definition create_explainer_input ::
    "string \<Rightarrow> graph \<Rightarrow> real list list \<Rightarrow> nat \<Rightarrow> real list list result" where
  "create_explainer_input task pair embeds node_id =
     (let rows = map fst pair; cols = map snd pair in
      bind_result (index_rows embeds rows) (\<lambda>row_embeds.
      bind_result (index_rows embeds cols) (\<lambda>col_embeds.
        if task = ''node'' then
          bind_result (py_index embeds node_id) (\<lambda>e.
            let node_embed = replicate (length rows) e in
            Inr (hcat row_embeds (hcat col_embeds node_embed)))
        else Inr (hcat row_embeds col_embeds))))"

section \<open>The stochastic edge sampler\<close>

text \<open>
  The global torch generator is the stream of the uniform draws still to come, each in
  \<open>[0, 1)\<close>. \<open>rand k\<close> is \<open>torch.rand\<close> of \<open>k\<close> elements: it returns the next
  \<open>k\<close> draws and the generator advanced past them.
\<close>

type_synonym rng = "nat \<Rightarrow> real"

definition rand :: "nat \<Rightarrow> rng \<Rightarrow> real list \<times> rng" where
  "rand k g = (map g [0..<k], \<lambda>i. g (i + k))"

text \<open>The noise \<open>eps\<close> that the training branch forms from a uniform draw \<open>x\<close>.\<close>

definition eps :: "real \<Rightarrow> real \<Rightarrow> real" where
  "eps bias x = (bias - (1 - bias)) * x + (1 - bias)"

definition sample_graph ::
    "rng \<Rightarrow> real list \<Rightarrow> real \<Rightarrow> real \<Rightarrow> bool \<Rightarrow> real list \<times> rng" where
  "sample_graph g sampling_weights temperature bias training =
     (if training then
        (let bias = bias + 1 / 10000;
             (r, g') = rand (length sampling_weights) g;
             noise = map (eps bias) r;
             gate_inputs = map (\<lambda>u. ln u - ln (1 - u)) noise;
             gate_inputs = map2 (\<lambda>a w. (a + w) / temperature) gate_inputs sampling_weights
         in (map sigmoid gate_inputs, g'))
      else (map sigmoid sampling_weights, g))"

section \<open>The temperature schedule\<close>

text \<open>
  Python's \<open>x ** y\<close> on floats for an exponent \<open>y \<ge> 0\<close> and a base \<open>x \<ge> 0\<close>
  (\<open>x ** 0.0\<close> is \<open>1.0\<close> also at \<open>x = 0.0\<close>).
\<close>

definition float_pow :: "real \<Rightarrow> real \<Rightarrow> real" where
  "float_pow x y = (if y = 0 then 1 else if x = 0 then 0 else x powr y)"

text \<open>
  \<open>temp_schedule = lambda e: temp[0] * ((temp[1] / temp[0]) ** (e / epochs))\<close>. Both
  divisions are divisions of Python numbers and raise on a zero divisor.
\<close>

definition temp_schedule :: "real \<times> real \<Rightarrow> nat \<Rightarrow> nat \<Rightarrow> real result" where
  "temp_schedule temp epochs e =
     (if fst temp = 0 \<or> epochs = 0 then Inl ZeroDivisionError
      else Inr (fst temp * float_pow (snd temp / fst temp) (real e / real epochs)))"

section \<open>The loss terms\<close>

text \<open>
  \<open>torch.nn.functional.cross_entropy(input, target)\<close> for a batch of score rows and one
  class index per row: the mean over the batch of \<open>log (sum (exp row)) - row[c]\<close>. A
  batch-size mismatch and a class index out of range raise.
\<close>

definition cross_entropy :: "real list list \<Rightarrow> nat list \<Rightarrow> real result" where
  "cross_entropy input target =
     (if length input \<noteq> length target then Inl ValueError
      else if \<exists>(row, c) \<in> set (zip input target). length row \<le> c then Inl IndexError
      else Inr (sum_list (map2 (\<lambda>row c. ln (sum_list (map exp row)) - row ! c) input target)
                / real (length input)))"

text \<open>\<open>torch.argmax\<close> of a flattened tensor: the first index of a maximal entry.\<close>

definition argmax :: "real list \<Rightarrow> nat result" where
  "argmax xs =
     (case xs of
        [] \<Rightarrow> Inl RuntimeError
      | x # rest \<Rightarrow>
          Inr (fst (fold (\<lambda>(i, v) (bi, bv). if bv < v then (i, v) else (bi, bv))
                         (zip [1..<length xs] rest) (0, x))))"

text \<open>
  \<open>_loss\<close>. The entropy of a mask entry \<open>m\<close> is
  \<open>-m * log(m) - (1 - m) * log(1 - m)\<close>, which is nan at \<open>m = 0\<close> and at \<open>m = 1\<close>
  (a product of 0 and \<open>-inf\<close>).
\<close>

definition mask_ent_reg :: "real \<Rightarrow> real option" where
  "mask_ent_reg m = fsub (fscale (- m) (flog m)) (fscale (1 - m) (flog (1 - m)))"

definition loss ::
    "real list list \<Rightarrow> nat list \<Rightarrow> tensor \<Rightarrow> real list \<Rightarrow>
     (real option \<times> real option \<times> real option) result" where
  "loss masked_pred original_pred edge_mask reg_coefs =
     bind_result (py_index reg_coefs 0) (\<lambda>size_reg.
     bind_result (py_index reg_coefs 1) (\<lambda>entropy_reg.
       let size_loss = Some (tensor_sum edge_mask * size_reg);
           mask_ent_loss =
             fscale entropy_reg (fmean (map mask_ent_reg (tensor_entries edge_mask)))
       in bind_result (cross_entropy masked_pred original_pred) (\<lambda>cce_loss.
            Inr (Some cce_loss, size_loss, mask_ent_loss))))"

subsection \<open>Connectivity loss\<close>

text \<open>
  The first loop of \<open>_connectivity_loss\<close>, over \<open>enumerate(graph[0])\<close>. Its state is
  \<open>start_node\<close>, \<open>adjacent_masks\<close> and \<open>total_mask_score\<close>; a group is appended to
  \<open>total_mask_score\<close> when the source node changes, and only then: what is left in
  \<open>adjacent_masks\<close> when the loop ends is not appended.
\<close>

fun collect_adjacent ::
    "tensor \<Rightarrow> (nat \<times> nat) list \<Rightarrow> nat \<Rightarrow> real list \<Rightarrow> real list list \<Rightarrow> real list list result" where
  "collect_adjacent edge_mask [] start_node adjacent_masks total_mask_score = Inr total_mask_score"
| "collect_adjacent edge_mask ((idx, start) # rest) start_node adjacent_masks total_mask_score =
     (let (total_mask_score, adjacent_masks, start_node) =
            (if start_node \<noteq> start then (total_mask_score @ [adjacent_masks], [], start)
             else (total_mask_score, adjacent_masks, start_node))
      in bind_result (tensor_index edge_mask idx) (\<lambda>m.
           collect_adjacent edge_mask rest start_node (adjacent_masks @ [m]) total_mask_score))"

text \<open>\<open>torch.combinations(v, r=2)\<close>: the pairs of entries at positions \<open>i < j\<close>.\<close>

fun combinations2 :: "'a list \<Rightarrow> ('a \<times> 'a) list" where
  "combinations2 [] = []"
| "combinations2 (x # xs) = map (Pair x) xs @ combinations2 xs"

definition pair_loss :: "real \<times> real \<Rightarrow> real option" where
  "pair_loss pair =
     fsub (fscale (- fst pair) (flog (snd pair))) (fscale (1 - fst pair) (flog (1 - fst pair)))"

text \<open>
  The second loop, over the groups. Every group in \<open>total_mask_score\<close> holds at least one
  mask value, so \<open>torch.stack\<close> never sees an empty list.
\<close>

definition mean_all_starts :: "real list list \<Rightarrow> real option" where
  "mean_all_starts total_mask_score =
     fold (\<lambda>masks acc.
             let pair_order_list = combinations2 masks;
                 sum_loss = fold (\<lambda>pair s. fadd s (pair_loss pair)) pair_order_list (Some 0)
             in if length pair_order_list > 0
                then fadd acc (fdiv sum_loss (length pair_order_list)) else acc)
          total_mask_score (Some 0)"

text \<open>
  \<open>mean_all_starts / len(total_mask_score)\<close>: with no group the dividend is still the
  Python integer 0 and the divisor the integer 0, which raises ZeroDivisionError.
\<close>

definition connectivity_loss ::
    "real list \<Rightarrow> graph \<Rightarrow> tensor \<Rightarrow> real option result" where
  "connectivity_loss reg_coefs graph edge_mask =
     bind_result (py_index reg_coefs 2) (\<lambda>conn_reg.
     bind_result (py_index (map fst graph) 0) (\<lambda>start_node.
     bind_result (collect_adjacent edge_mask (zip [0..<length graph] (map fst graph)) start_node [] [])
       (\<lambda>total_mask_score.
          if length total_mask_score = 0 then Inl ZeroDivisionError
          else let mean_conn_loss =
                     fdiv (mean_all_starts total_mask_score) (length total_mask_score)
               in Inr (fscale conn_reg mean_conn_loss))))"

section \<open>The mask predictor\<close>

text \<open>
  \<open>nn.Sequential(nn.Linear(expl_embedding, 64), nn.ReLU(), nn.Linear(64, 1))\<close>, built in
  \<open>prepare\<close>. \<open>w1\<close> and \<open>b1\<close> are the weight rows and biases of the first layer,
  \<open>w2\<close> and \<open>b2\<close> the single weight row and bias of the second. The network acts on
  each row of its input; a row whose width is not \<open>in_features\<close> raises. The \<open>E\<close>
  logits of shape \<open>(1, E, 1)\<close> are returned as a list.
\<close>

record mlp =
  in_features :: nat
  w1 :: "real list list"
  b1 :: "real list"
  w2 :: "real list"
  b2 :: real

definition dot :: "real list \<Rightarrow> real list \<Rightarrow> real" where
  "dot w x = sum_list (map2 (*) w x)"

definition relu :: "real \<Rightarrow> real" where
  "relu x = max 0 x"

definition mlp_row :: "mlp \<Rightarrow> real list \<Rightarrow> real" where
  "mlp_row m x =
     (let h = map2 (\<lambda>w b. dot w x + b) (w1 m) (b1 m)
      in dot (w2 m) (map relu h) + b2 m)"

definition explainer_model :: "mlp \<Rightarrow> real list list \<Rightarrow> real list result" where
  "explainer_model m input =
     (if \<exists>x \<in> set input. length x \<noteq> in_features m then Inl RuntimeError
      else Inr (map (mlp_row m) input))"

section \<open>The explainer and its collaborators\<close>

text \<open>
  The explained model, the dataset, \<open>k_hop_subgraph\<close> of torch_geometric and the Adam
  optimizer are outside the explainer. The explained model gives node embeddings and
  class scores (with or without edge weights). A node task has one feature tensor and
  one graph, a graph task one of each per index. The optimizer step takes the optimizer
  state, the accumulated loss as a function of the mask predictor's parameters (what
  \<open>backward\<close> differentiates) and the current parameters.
\<close>

record 'f explained_model =
  embedding_size :: nat
  embedding :: "'f \<Rightarrow> graph \<Rightarrow> real list list"
  forward :: "'f \<Rightarrow> graph \<Rightarrow> tensor option \<Rightarrow> real list list"

datatype 'f dataset = NodeData 'f graph | GraphData "'f list" "graph list"

record ('f, 'o) explainer =
  model_to_explain :: "'f explained_model"
  data :: "'f dataset"
  task :: string
  epochs :: nat
  temp :: "real \<times> real"
  reg_coefs :: "real list"
  sample_bias :: real
  k_hop_subgraph :: "nat \<Rightarrow> nat \<Rightarrow> graph \<Rightarrow> graph"
  optimizer_step :: "'o \<Rightarrow> (mlp \<Rightarrow> real option) \<Rightarrow> mlp \<Rightarrow> 'o \<times> mlp"

text \<open>
  What the explainer changes: the parameters of the mask predictor, the optimizer, the
  random generator, and the calls it makes to autograd, the optimizer and the
  tensorboard writers, in order.
\<close>

datatype event =
  ZeroGrad | Backward "real option" | OptimizerStep | AddScalar string "real option" nat

record 'o state =
  params :: mlp
  optimizer :: 'o
  generator :: rng
  events :: "event list"

text \<open>
  The features, edge list and node embeddings for one index, as \<open>train\<close> and
  \<open>explain\<close> both select them. A dataset of the other task kind's shape is a TypeError.
\<close>

definition select_example ::
    "('f, 'o) explainer \<Rightarrow> nat \<Rightarrow> ('f \<times> graph \<times> real list list) result" where
  "select_example ex n =
     (if task ex = ''node'' then
        (case data ex of
           NodeData features graphs \<Rightarrow>
             Inr (features, k_hop_subgraph ex n 3 graphs,
                  embedding (model_to_explain ex) features graphs)
         | GraphData _ _ \<Rightarrow> Inl TypeError)
      else
        (case data ex of
           GraphData features graphs \<Rightarrow>
             bind_result (py_index features n) (\<lambda>feats.
             bind_result (py_index graphs n) (\<lambda>graph.
               Inr (feats, graph, embedding (model_to_explain ex) feats graph)))
         | NodeData _ _ \<Rightarrow> Inl TypeError))"

section \<open>Training\<close>

text \<open>
  The first half of the body of the loop over \<open>indices\<close>: the features and edge list
  of the example and the mask sampled for it, with the generator after the draw.
\<close>

definition sample_example ::
    "('f, 'o) explainer \<Rightarrow> mlp \<Rightarrow> real \<Rightarrow> nat \<Rightarrow> rng \<Rightarrow> ('f \<times> graph \<times> tensor \<times> rng) result" where
  "sample_example ex m t n g =
     bind_result (select_example ex n) (\<lambda>(feats, graph, embeds).
     bind_result (create_explainer_input (task ex) graph embeds n) (\<lambda>input_expl.
     bind_result (explainer_model m input_expl) (\<lambda>sampling_weights.
       let (sampled, g') = sample_graph g sampling_weights t (sample_bias ex) True
       in Inr (feats, graph, squeeze sampled, g'))))"

text \<open>
  The masked and the original prediction for one example. A node task keeps the scores
  of node \<open>n\<close> only; \<open>torch.argmax\<close> flattens the original scores.
\<close>

definition example_predictions ::
    "('f, 'o) explainer \<Rightarrow> 'f \<Rightarrow> graph \<Rightarrow> tensor \<Rightarrow> nat \<Rightarrow> (real list list \<times> real list) result" where
  "example_predictions ex feats graph edge_mask n =
     (let masked_pred = forward (model_to_explain ex) feats graph (Some edge_mask);
          original_pred = forward (model_to_explain ex) feats graph None
      in if task ex = ''node'' then
           bind_result (py_index masked_pred n) (\<lambda>mp.
           bind_result (py_index original_pred n) (\<lambda>op. Inr ([mp], op)))
         else Inr (masked_pred, concat original_pred))"

text \<open>The body of the loop over \<open>indices\<close>: the four loss terms of one example.\<close>

definition example_loss ::
    "('f, 'o) explainer \<Rightarrow> mlp \<Rightarrow> real \<Rightarrow> nat \<Rightarrow> rng \<Rightarrow>
     ((real option \<times> real option \<times> real option \<times> real option) \<times> rng) result" where
  "example_loss ex m t n g =
     bind_result (sample_example ex m t n g) (\<lambda>(feats, graph, edge_mask, g').
     bind_result (example_predictions ex feats graph edge_mask n)
       (\<lambda>(masked_pred, original_pred).
     bind_result (argmax original_pred) (\<lambda>c.
     bind_result (loss masked_pred [c] edge_mask (reg_coefs ex))
       (\<lambda>(cce_loss, size_loss, mask_ent_loss).
     bind_result (connectivity_loss (reg_coefs ex) graph edge_mask) (\<lambda>conn_loss.
       Inr ((cce_loss, size_loss, mask_ent_loss, conn_loss), g'))))))"

text \<open>
  The accumulators of one epoch: \<open>loss\<close>, \<open>total_pred_loss\<close>, \<open>total_size_loss\<close>,
  \<open>total_ent_loss\<close>, \<open>total_conn_loss\<close>, each starting as the tensor \<open>[0]\<close>.
\<close>

record totals =
  loss_acc :: "real option"
  total_pred_loss :: "real option"
  total_size_loss :: "real option"
  total_ent_loss :: "real option"
  total_conn_loss :: "real option"

definition zero_totals :: totals where
  "zero_totals = \<lparr>loss_acc = Some 0, total_pred_loss = Some 0, total_size_loss = Some 0,
                   total_ent_loss = Some 0, total_conn_loss = Some 0\<rparr>"

fun sweep ::
    "('f, 'o) explainer \<Rightarrow> mlp \<Rightarrow> real \<Rightarrow> nat list \<Rightarrow> totals \<Rightarrow> rng \<Rightarrow> (totals \<times> rng) result" where
  "sweep ex m t [] acc g = Inr (acc, g)"
| "sweep ex m t (n # ns) acc g =
     bind_result (example_loss ex m t n g)
       (\<lambda>((cce_loss, size_loss, mask_ent_loss, conn_loss), g').
          sweep ex m t ns
            \<lparr>loss_acc = fadd (loss_acc acc)
                 (fadd (fadd (fadd cce_loss size_loss) mask_ent_loss) conn_loss),
              total_pred_loss = fadd (total_pred_loss acc) cce_loss,
              total_size_loss = fadd (total_size_loss acc) size_loss,
              total_ent_loss = fadd (total_ent_loss acc) mask_ent_loss,
              total_conn_loss = fadd (total_conn_loss acc) conn_loss\<rparr> g')"

text \<open>
  One pass of the loop over the epochs. \<open>loss.backward()\<close> raises RuntimeError when no
  example was added to \<open>loss\<close>, which is then still a detached constant. What
  \<open>backward\<close> differentiates, and the optimizer step uses, is the accumulated \<open>loss\<close>
  as a function of the parameters of the mask predictor, with the noise that was drawn.
  The five tensorboard scalars are the totals divided by \<open>len(indices)\<close>.
\<close>

definition train_epoch ::
    "('f, 'o) explainer \<Rightarrow> nat list \<Rightarrow> nat \<Rightarrow> 'o state \<Rightarrow> 'o state result" where
  "train_epoch ex indices e st =
     bind_result (temp_schedule (temp ex) (epochs ex) e) (\<lambda>t.
     bind_result (sweep ex (params st) t indices zero_totals (generator st)) (\<lambda>(acc, g').
       if indices = [] then Inl RuntimeError
       else
         let (opt', m') =
               optimizer_step ex (optimizer st)
                 (\<lambda>p. case sweep ex p t indices zero_totals (generator st) of
                         Inr (a, _) \<Rightarrow> loss_acc a | Inl _ \<Rightarrow> None)
                 (params st);
             k = length indices
         in Inr (st\<lparr>params := m', optimizer := opt', generator := g',
                    events := events st @
                      [ZeroGrad, Backward (loss_acc acc), OptimizerStep,
                       AddScalar ''norm loss'' (fdiv (loss_acc acc) k) e,
                       AddScalar ''size loss'' (fdiv (total_size_loss acc) k) e,
                       AddScalar ''conn loss'' (fdiv (total_conn_loss acc) k) e,
                       AddScalar ''pred loss'' (fdiv (total_pred_loss acc) k) e,
                       AddScalar ''ent loss'' (fdiv (total_ent_loss acc) k) e]\<rparr>)))"

fun train_loop ::
    "('f, 'o) explainer \<Rightarrow> nat list \<Rightarrow> nat list \<Rightarrow> 'o state \<Rightarrow> 'o state result" where
  "train_loop ex indices [] st = Inr st"
| "train_loop ex indices (e # es) st =
     bind_result (train_epoch ex indices e st) (train_loop ex indices es)"

definition train :: "('f, 'o) explainer \<Rightarrow> nat list \<Rightarrow> 'o state \<Rightarrow> 'o state result" where
  "train ex indices st = train_loop ex indices [0..<epochs ex] st"

subsection \<open>What the epoch is compared with\<close>


definition pred_term ::
    "real option \<times> real option \<times> real option \<times> real option \<Rightarrow> real option" where
  "pred_term l = fst l"

definition size_term ::
    "real option \<times> real option \<times> real option \<times> real option \<Rightarrow> real option" where
  "size_term l = fst (snd l)"

definition ent_term ::
    "real option \<times> real option \<times> real option \<times> real option \<Rightarrow> real option" where
  "ent_term l = fst (snd (snd l))"

definition conn_term ::
    "real option \<times> real option \<times> real option \<times> real option \<Rightarrow> real option" where
  "conn_term l = snd (snd (snd l))"

definition total_loss ::
    "real option \<times> real option \<times> real option \<times> real option \<Rightarrow> real option" where
  "total_loss l = fadd (fadd (fadd (pred_term l) (size_term l)) (ent_term l)) (conn_term l)"



text \<open>
  The fidelity term of an example for a given mask: the cross-entropy of the masked
  prediction against the argmax class of the original prediction.
\<close>

definition fidelity_term ::
    "('f, 'o) explainer \<Rightarrow> 'f \<Rightarrow> graph \<Rightarrow> tensor \<Rightarrow> nat \<Rightarrow> real option result" where
  "fidelity_term ex feats graph edge_mask n =
     bind_result (example_predictions ex feats graph edge_mask n)
       (\<lambda>(masked_pred, original_pred).
     bind_result (argmax original_pred) (\<lambda>c.
     bind_result (cross_entropy masked_pred [c]) (\<lambda>cce_loss. Inr (Some cce_loss))))"

section \<open>Explanation\<close>

text \<open>
  Modelled from the spec: \<open>index_edge\<close> of \<open>ExplanationEvaluation.utils.graph\<close> is not
  among the sources. The spec has the weights placed "by each edge's index within the
  edge-list ordering": the positions of the edge list that hold the given pair.
\<close>

definition index_edge :: "graph \<Rightarrow> nat \<times> nat \<Rightarrow> nat list" where
  "index_edge graph pair = filter (\<lambda>j. graph ! j = pair) [0..<length graph]"

text \<open>\<open>w[t] = v\<close> for an index tensor \<open>t\<close>.\<close>

definition index_put :: "real list \<Rightarrow> nat list \<Rightarrow> real \<Rightarrow> real list" where
  "index_put w t v = fold (\<lambda>j w. w[j := v]) t w"

fun scatter :: "graph \<Rightarrow> tensor \<Rightarrow> nat list \<Rightarrow> real list \<Rightarrow> real list result" where
  "scatter graph edge_mask [] expl_graph_weights = Inr expl_graph_weights"
| "scatter graph edge_mask (i # is) expl_graph_weights =
     bind_result (py_index graph i) (\<lambda>pair.
       let t = index_edge graph pair
       in bind_result (tensor_index edge_mask i) (\<lambda>m.
            scatter graph edge_mask is (index_put expl_graph_weights t m)))"

definition explain ::
    "('f, 'o) explainer \<Rightarrow> 'o state \<Rightarrow> nat \<Rightarrow> (graph \<times> real list) result \<times> 'o state" where
  "explain ex st index =
     (case bind_result (select_example ex index) (\<lambda>(feats, graph, embeds).
           bind_result (create_explainer_input (task ex) graph embeds index) (\<lambda>input_expl.
           bind_result (explainer_model (params st) input_expl) (\<lambda>sampling_weights.
             Inr (graph, sampling_weights)))) of
        Inl err \<Rightarrow> (Inl err, st)
      | Inr (graph, sampling_weights) \<Rightarrow>
          let (sampled, g') = sample_graph (generator st) sampling_weights 1 0 False;
              edge_mask = squeeze sampled;
              st' = st\<lparr>generator := g'\<rparr>
          in (bind_result (size0 edge_mask) (\<lambda>k.
              bind_result (scatter graph edge_mask [0..<k] (replicate (length graph) 0))
                (\<lambda>expl_graph_weights. Inr (graph, expl_graph_weights))),
              st'))"

section \<open>A small instance\<close>

text \<open>
  A graph task with three graphs, of two edges, one edge and two edges, an explained
  model with constant embeddings and scores, a generator that always draws \<open>1 / 2\<close>,
  and an optimizer that counts its steps and moves the last bias of the mask predictor
  by a thousandth of the loss it is given. \<open>toy_mlp\<close> is a mask predictor (two inputs,
  64 hidden units) with all parameters zero; \<open>hot_mlp\<close> has the output bias 100, so
  all its logits are 100. The theorems below are instantiated on these.
\<close>

definition toy_model :: "unit explained_model" where
  "toy_model = \<lparr>embedding_size = 1, embedding = (\<lambda>feats graph. [[0], [0]]),
                 forward = (\<lambda>feats graph edge_weights. [[0, 0]])\<rparr>"

definition toy_optimizer_step :: "nat \<Rightarrow> (mlp \<Rightarrow> real option) \<Rightarrow> mlp \<Rightarrow> nat \<times> mlp" where
  "toy_optimizer_step opt f m =
     (Suc opt, case f m of Some v \<Rightarrow> m\<lparr>b2 := b2 m - v / 1000\<rparr> | None \<Rightarrow> m)"

definition toy_explainer :: "(unit, nat) explainer" where
  "toy_explainer =
     \<lparr>model_to_explain = toy_model,
      data = GraphData [(), (), ()] [[(0, 1), (1, 0)], [(0, 1)], [(1, 0), (0, 1)]],
      task = ''graph'', epochs = 10, temp = (5, 2), reg_coefs = [1 / 20, 1, 1],
      sample_bias = 0, k_hop_subgraph = (\<lambda>n k graph. graph),
      optimizer_step = toy_optimizer_step\<rparr>"

definition toy_mlp :: mlp where
  "toy_mlp = \<lparr>in_features = 2, w1 = replicate 64 [0, 0], b1 = replicate 64 0,
               w2 = replicate 64 0, b2 = 0\<rparr>"

definition hot_mlp :: mlp where
  "hot_mlp = toy_mlp\<lparr>b2 := 100\<rparr>"

definition toy_state :: "nat state" where
  "toy_state = \<lparr>params = toy_mlp, optimizer = 0, generator = (\<lambda>i. 1 / 2), events = []\<rparr>"

section \<open>Basic facts\<close>

lemma bind_result_Inr_iff:
  "bind_result m f = Inr y \<longleftrightarrow> (\<exists>v. m = Inr v \<and> f v = Inr y)"
  by (cases m) (simp_all add: bind_result_def)

lemma bind_result_Inl [simp]: "bind_result (Inl e) f = Inl e"
  by (simp add: bind_result_def)

lemma bind_result_Inr [simp]: "bind_result (Inr v) f = f v"
  by (simp add: bind_result_def)

lemma fadd_simps [simp]:
  "fadd (Some x) (Some y) = Some (x + y)" "fadd None b = None" "fadd a None = None"
  by (simp_all add: fadd_def split: option.splits)

lemma fsub_simps [simp]:
  "fsub (Some x) (Some y) = Some (x - y)" "fsub None b = None" "fsub a None = None"
  by (simp_all add: fsub_def split: option.splits)

lemma fscale_simps [simp]:
  "fscale c (Some x) = Some (c * x)" "fscale c None = None"
  by (simp_all add: fscale_def)

lemma fdiv_simps [simp]:
  "0 < k \<Longrightarrow> fdiv (Some x) k = Some (x / real k)" "fdiv None k = None"
  "fdiv v 0 = None"
  by (simp_all add: fdiv_def split: option.splits)

lemma loss_terms [simp]:
  "pred_term (a, b, c, d) = a" "size_term (a, b, c, d) = b"
  "ent_term (a, b, c, d) = c" "conn_term (a, b, c, d) = d"
  "total_loss (a, b, c, d) = fadd (fadd (fadd a b) c) d"
  by (simp_all add: total_loss_def pred_term_def size_term_def ent_term_def conn_term_def)


lemma sigmoid_zero: "sigmoid 0 = 1 / 2"
  by (simp add: sigmoid_def)

lemma exp_quarter: "(41 / 32 :: real) \<le> exp (1 / 4)"
  using exp_lower_Taylor_quadratic [of "1 / 4 :: real"] by (simp add: power2_eq_square)

lemma exp_17: "(2 :: real) ^ 24 \<le> exp 17"
proof -
  have "(64 :: real) \<le> (41 / 32) ^ 17"
    by (simp add: power_divide)
  also have "\<dots> \<le> exp (1 / 4) ^ 17"
    by (rule power_mono [OF exp_quarter]) simp
  also have "\<dots> = exp (17 / 4)"
    by (simp add: exp_of_nat_mult [symmetric])
  finally have "(64 :: real) ^ 4 \<le> exp (17 / 4) ^ 4"
    by (rule power_mono) simp
  also have "\<dots> = exp 17"
    by (simp add: exp_of_nat_mult [symmetric])
  finally show ?thesis by simp
qed







lemma sigmoid_one:
  assumes "17 \<le> x"
  shows "sigmoid x = 1"
proof -
  have "exp (- x) = 1 / exp x"
    by (simp add: exp_minus inverse_eq_divide)
  also from assms have "\<dots> \<le> 1 / exp 17"
    by (intro divide_left_mono) simp_all
  also from exp_17 have "\<dots> \<le> 1 / 2 ^ 24"
    by (intro divide_left_mono) simp_all
  finally show ?thesis
    by (simp add: sigmoid_def)
qed



subsection \<open>The small instance, evaluated\<close>

lemma toy_fields:
  "task (toy_explainer\<lparr>reg_coefs := rc, epochs := k\<rparr>) = ''graph''"
  "sample_bias (toy_explainer\<lparr>reg_coefs := rc, epochs := k\<rparr>) = 0"
  "reg_coefs (toy_explainer\<lparr>reg_coefs := rc, epochs := k\<rparr>) = rc"
  "epochs (toy_explainer\<lparr>reg_coefs := rc, epochs := k\<rparr>) = k"
  "temp (toy_explainer\<lparr>reg_coefs := rc, epochs := k\<rparr>) = (5, 2)"
  by (simp_all add: toy_explainer_def)


lemma toy_select:
  "select_example (toy_explainer\<lparr>reg_coefs := rc, epochs := k\<rparr>) 0
     = Inr ((), [(0, 1), (1, 0)], [[0], [0]])"
  "select_example (toy_explainer\<lparr>reg_coefs := rc, epochs := k\<rparr>) 2
     = Inr ((), [(1, 0), (0, 1)], [[0], [0]])"
  by (simp_all add: select_example_def toy_explainer_def toy_model_def py_index_def)

lemma toy_input:
  "create_explainer_input ''graph'' [(0, 1), (1, 0)] [[0], [0]] n = Inr [[0, 0], [0, 0]]"
  "create_explainer_input ''graph'' [(1, 0), (0, 1)] [[0], [0]] n = Inr [[0, 0], [0, 0]]"
  by (simp_all add: create_explainer_input_def index_rows_def hcat_def)

lemma dot_zero: "dot (replicate k 0) x = 0"
  unfolding dot_def by (induction k arbitrary: x) (simp, case_tac x, simp_all)

lemma toy_mlp_row: "mlp_row toy_mlp x = 0" "mlp_row hot_mlp x = 100"
  by (simp_all add: mlp_row_def hot_mlp_def toy_mlp_def dot_zero)

lemma toy_logits:
  "explainer_model toy_mlp [[0, 0], [0, 0]] = Inr [0, 0]"
  "explainer_model hot_mlp [[0, 0], [0, 0]] = Inr [100, 100]"
  by (simp_all add: explainer_model_def toy_mlp_row) (simp_all add: hot_mlp_def toy_mlp_def)

lemma toy_sample:
  "sample_graph (\<lambda>i. 1 / 2) [0, 0] t 0 True = ([1 / 2, 1 / 2], \<lambda>i. 1 / 2)"
  by (simp add: sample_graph_def rand_def sigmoid_zero eps_def upt_rec)

lemma hot_sample:
  "sample_graph (\<lambda>i. 1 / 2) [100, 100] 5 0 True = ([1, 1], \<lambda>i. 1 / 2)"
  by (simp add: sample_graph_def rand_def sigmoid_one eps_def upt_rec)

lemma toy_squeeze: "squeeze [x, y] = Vec [x, y]"
  by (simp add: squeeze_def)

lemma toy_sample_example:
  "sample_example (toy_explainer\<lparr>reg_coefs := rc, epochs := k\<rparr>) toy_mlp t 0 (\<lambda>i. 1 / 2)
     = Inr ((), [(0, 1), (1, 0)], Vec [1 / 2, 1 / 2], \<lambda>i. 1 / 2)"
  "sample_example (toy_explainer\<lparr>reg_coefs := rc, epochs := k\<rparr>) toy_mlp t 2 (\<lambda>i. 1 / 2)
     = Inr ((), [(1, 0), (0, 1)], Vec [1 / 2, 1 / 2], \<lambda>i. 1 / 2)"
  "sample_example (toy_explainer\<lparr>reg_coefs := rc, epochs := k\<rparr>) hot_mlp 5 0 (\<lambda>i. 1 / 2)
     = Inr ((), [(0, 1), (1, 0)], Vec [1, 1], \<lambda>i. 1 / 2)"
  unfolding sample_example_def toy_select toy_fields
  by (simp_all only: bind_result_Inr toy_input toy_logits toy_sample hot_sample toy_squeeze
        Let_def prod.case)

lemma toy_predictions:
  "example_predictions (toy_explainer\<lparr>reg_coefs := rc, epochs := k\<rparr>) () graph m n
     = Inr ([[0, 0]], [0, 0])"
  by (simp add: example_predictions_def toy_fields) (simp add: toy_explainer_def toy_model_def)

lemma toy_argmax: "argmax [0, 0] = Inr 0"
  by (simp add: argmax_def)

lemma toy_cross_entropy: "cross_entropy [[0, 0]] [0] = Inr (ln 2)"
  by (simp add: cross_entropy_def)

lemma toy_fidelity:
  "fidelity_term (toy_explainer\<lparr>reg_coefs := rc, epochs := k\<rparr>) () graph m n
     = Inr (Some (ln 2))"
  unfolding fidelity_term_def
  by (simp only: bind_result_Inr toy_predictions toy_argmax toy_cross_entropy prod.case)

lemma toy_mask_ent_reg: "mask_ent_reg (1 / 2) = Some (ln 2)" "mask_ent_reg 1 = None"
proof -
  have h: "ln (1 / 2 :: real) = - ln 2"
    using ln_inverse [of "2 :: real"] by (simp add: inverse_eq_divide)
  show "mask_ent_reg (1 / 2) = Some (ln 2)"
    by (simp add: mask_ent_reg_def flog_def h)
  show "mask_ent_reg 1 = None"
    by (simp add: mask_ent_reg_def flog_def)
qed

lemma toy_loss:
  "loss [[0, 0]] [0] (Vec [1 / 2, 1 / 2]) [a, b, c] = Inr (Some (ln 2), Some a, Some (b * ln 2))"
  "loss [[0, 0]] [0] (Vec [1, 1]) [a, b, c] = Inr (Some (ln 2), Some (2 * a), None)"
  by (simp_all add: loss_def py_index_def toy_cross_entropy toy_mask_ent_reg fmean_def fsum_def)

lemma toy_connectivity:
  "connectivity_loss [a, b, c] [(0, 1), (1, 0)] (Vec [x, y]) = Inr (Some 0)"
  "connectivity_loss [a, b, c] [(1, 0), (0, 1)] (Vec [x, y]) = Inr (Some 0)"
  by (simp_all add: connectivity_loss_def py_index_def mean_all_starts_def)

lemma toy_example_loss:
  "example_loss (toy_explainer\<lparr>reg_coefs := [a, b, c], epochs := k\<rparr>) toy_mlp t 0 (\<lambda>i. 1 / 2)
     = Inr ((Some (ln 2), Some a, Some (b * ln 2), Some 0), \<lambda>i. 1 / 2)"
  "example_loss (toy_explainer\<lparr>reg_coefs := [a, b, c], epochs := k\<rparr>) toy_mlp t 2 (\<lambda>i. 1 / 2)
     = Inr ((Some (ln 2), Some a, Some (b * ln 2), Some 0), \<lambda>i. 1 / 2)"
  "example_loss (toy_explainer\<lparr>reg_coefs := [a, b, c], epochs := k\<rparr>) hot_mlp 5 0 (\<lambda>i. 1 / 2)
     = Inr ((Some (ln 2), Some (2 * a), None, Some 0), \<lambda>i. 1 / 2)"
  unfolding example_loss_def toy_sample_example toy_fields
  by (simp_all only: bind_result_Inr toy_predictions toy_argmax toy_loss toy_connectivity
        prod.case)





section \<open>The sampler\<close>












section \<open>The temperature schedule over the epochs\<close>

lemma float_pow_pos: "0 < x \<Longrightarrow> float_pow x y = x powr y"
  by (simp add: float_pow_def)

text \<open>
  C10. For positive start and end temperatures the schedule is
  \<open>start * (end / start) powr (e / epochs)\<close>. With start 5, end 2 and 10 epochs the
  temperature at epoch 0 is 5, it is strictly smaller at every later epoch than at any
  earlier one, it stays above 2 for the epochs 0 to 9, and the formula reaches 2 at
  \<open>e = 10\<close>, the first epoch that is not run.
\<close>

theorem temp_schedule_geometric:
  "(0 < start \<and> 0 < stop \<and> 0 < n \<longrightarrow>
      temp_schedule (start, stop) n e
        = Inr (start * (stop / start) powr (real e / real n))) \<and>
   temp_schedule (5, 2) 10 0 = Inr 5 \<and>
   (e1 < e2 \<longrightarrow> projr (temp_schedule (5, 2) 10 e2) < projr (temp_schedule (5, 2) 10 e1)) \<and>
   (e < 10 \<longrightarrow> 2 < projr (temp_schedule (5, 2) 10 e)) \<and>
   temp_schedule (5, 2) 10 10 = Inr 2"
proof -
  have val: "projr (temp_schedule (5, 2) 10 k) = 5 * (2 / 5) powr (real k / 10)" for k
    by (simp add: temp_schedule_def float_pow_pos)
  have dec: "(2 / 5 :: real) powr (real e2 / 10) < (2 / 5) powr (real e1 / 10)" if "e1 < e2"
    using that by (intro powr_less_mono') simp_all
  have above: "(2 / 5 :: real) powr 1 < (2 / 5) powr (real e / 10)" if "e < 10"
    using that by (intro powr_less_mono') simp_all
  have "0 < start \<and> 0 < stop \<and> 0 < n \<longrightarrow>
      temp_schedule (start, stop) n e
        = Inr (start * (stop / start) powr (real e / real n))"
    by (simp add: temp_schedule_def float_pow_pos)
  moreover have "temp_schedule (5, 2) 10 0 = Inr 5"
    by (simp add: temp_schedule_def float_pow_def)
  moreover have "temp_schedule (5, 2) 10 10 = Inr 2"
    by (simp add: temp_schedule_def float_pow_pos)
  moreover have "e < 10 \<longrightarrow> 2 < projr (temp_schedule (5, 2) 10 e)"
    using above by (auto simp: val)
  moreover have "e1 < e2 \<longrightarrow>
      projr (temp_schedule (5, 2) 10 e2) < projr (temp_schedule (5, 2) 10 e1)"
    using dec by (simp add: val)
  ultimately show ?thesis by blast
qed

theorem temp_schedule_geometric_witness:
  "temp_schedule (5, 2) 10 9 = Inr (5 * (2 / 5) powr (9 / 10)) \<and>
   projr (temp_schedule (5, 2) 10 9) < projr (temp_schedule (5, 2) 10 0) \<and>
   2 < projr (temp_schedule (5, 2) 10 9)"
  using temp_schedule_geometric
    [where start = 5 and stop = 2 and n = 10 and e = 9 and ?e1.0 = 0 and ?e2.0 = 9]
  by auto

section \<open>The input builder\<close>

lemma map2_map_map: "map2 f (map a xs) (map b xs) = map (\<lambda>x. f (a x) (b x)) xs"
  by (induction xs) simp_all

lemma map2_map_replicate:
  "map2 f (map a xs) (replicate (length xs) e) = map (\<lambda>x. f (a x) e) xs"
  by (induction xs) simp_all

lemma create_explainer_input_rows:
  assumes "\<forall>(s, t) \<in> set pair. s < length embeds \<and> t < length embeds"
    and "kind = ''node'' \<longrightarrow> node_id < length embeds"
  shows "create_explainer_input kind pair embeds node_id =
      Inr (map (\<lambda>p. embeds ! fst p @ embeds ! snd p
                     @ (if kind = ''node'' then embeds ! node_id else [])) pair)"
proof -
  have r: "index_rows embeds (map fst pair) = Inr (map (\<lambda>p. embeds ! fst p) pair)"
    using assms(1) by (auto simp: index_rows_def)
  have c: "index_rows embeds (map snd pair) = Inr (map (\<lambda>p. embeds ! snd p) pair)"
    using assms(1) by (auto simp: index_rows_def)
  show ?thesis
  proof (cases "kind = ''node''")
    case True
    then have n: "py_index embeds node_id = Inr (embeds ! node_id)"
      using assms(2) by (simp add: py_index_def)
    have "hcat (map (\<lambda>p. embeds ! fst p) pair)
            (hcat (map (\<lambda>p. embeds ! snd p) pair) (replicate (length pair) (embeds ! node_id)))
       = map (\<lambda>p. embeds ! fst p @ embeds ! snd p @ embeds ! node_id) pair"
      by (simp add: hcat_def map2_map_replicate map2_map_map)
    with True r c n show ?thesis
      by (simp add: create_explainer_input_def)
  next
    case False
    have "hcat (map (\<lambda>p. embeds ! fst p) pair) (map (\<lambda>p. embeds ! snd p) pair)
       = map (\<lambda>p. embeds ! fst p @ embeds ! snd p) pair"
      by (simp add: hcat_def map2_map_map)
    with False r c show ?thesis
      by (simp add: create_explainer_input_def)
  qed
qed

text \<open>
  C6. Let the embedding matrix have rows of width \<open>d\<close> and a row for every endpoint of
  the edge list (and, in a node task, for the explained node). Then the input builder
  returns a matrix with one row per edge. For the task \<open>graph\<close> row \<open>i\<close> is the
  source embedding of edge \<open>i\<close> followed by its target embedding, of width \<open>2 * d\<close>;
  for the task \<open>node\<close> the explained node's embedding follows, the same in every row,
  and the width is \<open>3 * d\<close>. Either width is the \<open>expl_embedding\<close> that
  \<open>__init__\<close> computes for the mask predictor.
\<close>

theorem create_explainer_input_shape:
  assumes "kind = ''graph'' \<or> kind = ''node''"
    and "\<forall>row \<in> set embeds. length row = d"
    and "\<forall>(s, t) \<in> set pair. s < length embeds \<and> t < length embeds"
    and "kind = ''node'' \<longrightarrow> node_id < length embeds"
  shows "create_explainer_input kind pair embeds node_id =
      Inr (map (\<lambda>p. embeds ! fst p @ embeds ! snd p
                     @ (if kind = ''node'' then embeds ! node_id else [])) pair) \<and>
    (\<forall>p \<in> set pair.
       length (embeds ! fst p @ embeds ! snd p
               @ (if kind = ''node'' then embeds ! node_id else []))
         = (if kind = ''graph'' then 2 * d else 3 * d)) \<and>
    expl_embedding kind d = (if kind = ''graph'' then 2 * d else 3 * d)"
proof -
  have w: "length (embeds ! k) = d" if "k < length embeds" for k
    using assms(2) that by simp
  have "length (embeds ! fst p @ embeds ! snd p
               @ (if kind = ''node'' then embeds ! node_id else []))
         = (if kind = ''graph'' then 2 * d else 3 * d)" if "p \<in> set pair" for p
  proof -
    from that assms(3) have "fst p < length embeds" "snd p < length embeds"
      by (auto simp: case_prod_beta)
    with assms(1,4) show ?thesis by (auto simp: w)
  qed
  then show ?thesis
    using create_explainer_input_rows [OF assms(3,4)]
    by (simp add: expl_embedding_def)
qed

theorem create_explainer_input_shape_witness:
  "create_explainer_input ''node'' [(0, 1), (1, 0)] [[1, 2], [3, 4]] 1
     = Inr [[1, 2, 3, 4, 3, 4], [3, 4, 1, 2, 3, 4]] \<and>
   expl_embedding ''node'' 2 = 6"
proof -
  have h1: "''node'' = ''graph'' \<or> ''node'' = ''node''"
    by simp
  have h2: "\<forall>row \<in> set [[1, 2], [3, 4 :: real]]. length row = 2"
    by simp
  have h3: "\<forall>(s, t) \<in> set [(0 :: nat, 1 :: nat), (1, 0)].
       s < length [[1, 2], [3, 4 :: real]] \<and> t < length [[1, 2], [3, 4 :: real]]"
    by simp
  have h4: "''node'' = ''node'' \<longrightarrow> 1 < length [[1, 2], [3, 4 :: real]]"
    by simp
  from create_explainer_input_shape [OF h1 h2 h3 h4] show ?thesis
    by simp
qed

section \<open>The connectivity loss\<close>

lemma connectivity_loss_short:
  "length rc < 3 \<Longrightarrow> connectivity_loss rc graph m = Inl IndexError"
  by (simp add: connectivity_loss_def py_index_def)

lemma collect_adjacent_distinct:
  assumes "distinct (start_node # map snd zs)"
    and "\<forall>z \<in> set zs. fst z < length m"
    and "length adj = 1"
    and "\<forall>grp \<in> set groups. length grp = 1"
  shows "\<exists>groups_out. collect_adjacent (Vec m) zs start_node adj groups = Inr groups_out \<and>
     length groups_out = length groups + length zs \<and> (\<forall>grp \<in> set groups_out. length grp = 1)"
  using assms
proof (induction zs arbitrary: start_node adj groups)
  case Nil
  then show ?case by simp
next
  case (Cons z zs)
  obtain i s where z: "z = (i, s)" by (cases z)
  from Cons.prems z have ne: "start_node \<noteq> s" and i: "i < length m"
    and d: "distinct (s # map snd zs)" and r: "\<forall>z \<in> set zs. fst z < length m"
    by auto
  from Cons.prems(3,4) have t: "\<forall>grp \<in> set (groups @ [adj]). length grp = 1"
    by auto
  from Cons.IH [OF d r _ t, of "[m ! i]"] obtain groups_out where
    "collect_adjacent (Vec m) zs s [m ! i] (groups @ [adj]) = Inr groups_out"
    "length groups_out = length (groups @ [adj]) + length zs"
    "\<forall>grp \<in> set groups_out. length grp = 1"
    by auto
  with z ne i show ?case
    by (simp add: py_index_def)
qed

lemma mean_all_starts_singletons:
  assumes "\<forall>grp \<in> set groups. length grp = 1"
  shows "mean_all_starts groups = Some 0"
proof -
  have "fold (\<lambda>masks acc.
             let pair_order_list = combinations2 masks;
                 sum_loss = fold (\<lambda>pair s. fadd s (pair_loss pair)) pair_order_list (Some 0)
             in if length pair_order_list > 0
                then fadd acc (fdiv sum_loss (length pair_order_list)) else acc)
          groups a = a" for a
    using assms
  proof (induction groups arbitrary: a)
    case Nil
    then show ?case by simp
  next
    case (Cons grp groups)
    then obtain x where "grp = [x]"
      by (cases grp) auto
    with Cons show ?case by simp
  qed
  then show ?thesis by (simp add: mean_all_starts_def)
qed

lemma connectivity_loss_distinct_sources:
  assumes "3 \<le> length rc" and "distinct (map fst graph)" and "2 \<le> length graph"
    and "length graph \<le> length m"
  shows "connectivity_loss rc graph (Vec m) = Inr (Some 0)"
proof -
  from assms(3) obtain e rest where g: "graph = e # rest" and rest: "rest \<noteq> []"
    by (cases graph) force+
  have u: "[0..<length graph] = 0 # [1..<length graph]"
    using g by (subst upt_conv_Cons) simp_all
  have z: "zip [0..<length graph] (map fst (e # rest))
      = (0, fst e) # zip [1..<length graph] (map fst rest)"
    unfolding u by simp
  have ms: "map snd (zip [1..<length graph] (map fst rest)) = map fst rest"
    by (rule map_snd_zip) (simp add: g del: upt_Suc)
  have "distinct (fst e # map snd (zip [1..<length graph] (map fst rest)))"
    unfolding ms using assms(2) g by simp
  moreover have "\<forall>z \<in> set (zip [1..<length graph] (map fst rest)). fst z < length m"
    using assms(4) by (auto dest!: set_zip_leftD)
  ultimately obtain groups_out where
    c: "collect_adjacent (Vec m) (zip [1..<length graph] (map fst rest)) (fst e) [m ! 0] []
         = Inr groups_out"
    and l: "length groups_out = length (zip [1..<length graph] (map fst rest))"
    and s: "\<forall>grp \<in> set groups_out. length grp = 1"
    using collect_adjacent_distinct [of "fst e" "zip [1..<length graph] (map fst rest)" m "[m ! 0]" "[]"]
    by auto
  from ms have "length (zip [1..<length graph] (map fst rest)) = length rest"
    by (metis length_map)
  with l rest have "0 < length groups_out"
    by simp
  moreover from assms(3,4) have "0 < length m" by linarith
  ultimately show ?thesis
    using assms(1) c z mean_all_starts_singletons [OF s]
    unfolding connectivity_loss_def g [symmetric]
    by (simp add: g py_index_def del: upt_Suc)
qed

text \<open>
  C1. A graph in which every node has exactly one outgoing edge can consist of one node
  with a self-loop, a single edge. The only group of edges is then still in
  \<open>adjacent_masks\<close> when the grouping loop ends and is never appended, so
  \<open>total_mask_score\<close> is empty and the final division by its length raises
  ZeroDivisionError for every mask vector, where the claim has the loss well-defined and
  zero. Inside \<open>train\<close> the mask of a single edge has been squeezed to rank 0 and
  \<open>mask[idx]\<close> raises IndexError before that. With two or more edges and pairwise
  distinct sources the loss is 0, as \<open>connectivity_loss_distinct_sources\<close> shows.
\<close>

theorem connectivity_loss_single_edge:
  assumes "3 \<le> length rc"
  shows "connectivity_loss rc [(s, t)] (Vec (x # xs)) = Inl ZeroDivisionError \<and>
    connectivity_loss rc [(s, t)] (squeeze [x]) = Inl IndexError"
  using assms by (simp add: connectivity_loss_def py_index_def squeeze_def)

theorem connectivity_loss_single_edge_witness:
  "connectivity_loss [1 / 20, 1, 1] [(0, 0)] (Vec [1 / 2]) = Inl ZeroDivisionError \<and>
   connectivity_loss [1 / 20, 1, 1] [(0, 0)] (squeeze [1 / 2]) = Inl IndexError"
  using connectivity_loss_single_edge [of "[1 / 20, 1, 1]" 0 0 "1 / 2" "[]"] by simp

subsection \<open>Finite loss terms\<close>

lemma collect_adjacent_entries:
  assumes "collect_adjacent edge_mask zs start_node adj groups = Inr groups_out"
    and "set adj \<subseteq> set (tensor_entries edge_mask)"
    and "\<forall>grp \<in> set groups. set grp \<subseteq> set (tensor_entries edge_mask)"
  shows "\<forall>grp \<in> set groups_out. set grp \<subseteq> set (tensor_entries edge_mask)"
  using assms
proof (induction zs arbitrary: start_node adj groups)
  case Nil
  then show ?case by simp
next
  case (Cons z zs)
  obtain i s where z: "z = (i, s)" by (cases z)
  from Cons.prems(1) z obtain v where
    v: "tensor_index edge_mask i = Inr v"
    by (auto simp: bind_result_Inr_iff Let_def split: if_splits)
  then have m: "v \<in> set (tensor_entries edge_mask)"
    by (cases edge_mask) (auto simp: py_index_def split: if_splits)
  show ?case
  proof (cases "start_node = s")
    case True
    with Cons.prems(1) z v have
      "collect_adjacent edge_mask zs start_node (adj @ [v]) groups = Inr groups_out"
      by simp
    from Cons.IH [OF this] Cons.prems(2,3) m show ?thesis
      by simp
  next
    case False
    with Cons.prems(1) z v have
      "collect_adjacent edge_mask zs s [v] (groups @ [adj]) = Inr groups_out"
      by simp
    from Cons.IH [OF this] Cons.prems(2,3) m show ?thesis
      by simp
  qed
qed

lemma combinations2_entries: "set (combinations2 xs) \<subseteq> set xs \<times> set xs"
  by (induction xs) auto

lemma pair_loss_finite:
  assumes "0 < fst p" "fst p < 1" "0 < snd p"
  shows "\<exists>r. pair_loss p = Some r"
  using assms by (simp add: pair_loss_def flog_def)

lemma fold_pair_loss_finite:
  assumes "\<forall>p \<in> set ps. 0 < fst p \<and> fst p < 1 \<and> 0 < snd p"
  shows "\<exists>r. fold (\<lambda>pair s. fadd s (pair_loss pair)) ps (Some a) = Some r"
  using assms
proof (induction ps arbitrary: a)
  case Nil
  then show ?case by simp
next
  case (Cons p ps)
  from Cons.prems pair_loss_finite [of p] obtain r where "pair_loss p = Some r"
    by auto
  with Cons show ?case by simp
qed

lemma mean_all_starts_finite:
  assumes "\<forall>grp \<in> set groups. \<forall>v \<in> set grp. 0 < v \<and> v < 1"
  shows "\<exists>r. mean_all_starts groups = Some r"
proof -
  have "\<exists>r. fold (\<lambda>masks acc.
             let pair_order_list = combinations2 masks;
                 sum_loss = fold (\<lambda>pair s. fadd s (pair_loss pair)) pair_order_list (Some 0)
             in if length pair_order_list > 0
                then fadd acc (fdiv sum_loss (length pair_order_list)) else acc)
          groups (Some a) = Some r" for a
    using assms
  proof (induction groups arbitrary: a)
    case Nil
    then show ?case by simp
  next
    case (Cons grp groups)
    have "\<forall>p \<in> set (combinations2 grp). 0 < fst p \<and> fst p < 1 \<and> 0 < snd p"
      using Cons.prems combinations2_entries [of grp] by fastforce
    from fold_pair_loss_finite [OF this, of 0] obtain r where
      r: "fold (\<lambda>pair s. fadd s (pair_loss pair)) (combinations2 grp) (Some 0) = Some r"
      by auto
    have "\<exists>a'. (let pair_order_list = combinations2 grp;
                 sum_loss = fold (\<lambda>pair s. fadd s (pair_loss pair)) pair_order_list (Some 0)
             in if length pair_order_list > 0
                then fadd (Some a) (fdiv sum_loss (length pair_order_list)) else Some a)
          = Some a'"
      by (cases "combinations2 grp = []") (simp_all add: Let_def r)
    then obtain a' where "(let pair_order_list = combinations2 grp;
                 sum_loss = fold (\<lambda>pair s. fadd s (pair_loss pair)) pair_order_list (Some 0)
             in if length pair_order_list > 0
                then fadd (Some a) (fdiv sum_loss (length pair_order_list)) else Some a)
          = Some a'" ..
    with Cons.IH [of a'] Cons.prems show ?case
      by (simp only: fold_simps list.set) simp
  qed
  then show ?thesis by (simp add: mean_all_starts_def)
qed

lemma connectivity_loss_entries:
  assumes "connectivity_loss rc graph edge_mask = Inr conn_loss"
  shows "tensor_entries edge_mask \<noteq> []"
proof -
  from assms obtain e rest where g: "graph = e # rest"
    by (cases graph) (auto simp: connectivity_loss_def bind_result_Inr_iff py_index_def)
  have u: "[0..<length graph] = 0 # [1..<length graph]"
    using g by (subst upt_conv_Cons) simp_all
  have z: "zip [0..<length graph] (map fst graph)
      = (0, fst e) # zip [1..<length graph] (map fst rest)"
    unfolding u by (simp add: g)
  from assms obtain groups_out where
    "collect_adjacent edge_mask (zip [0..<length graph] (map fst graph)) (fst e) [] []
       = Inr groups_out"
    by (auto simp: connectivity_loss_def bind_result_Inr_iff py_index_def g
          split: if_splits simp del: upt_Suc)
  then obtain v where "tensor_index edge_mask 0 = Inr v"
    unfolding z by (auto simp: bind_result_Inr_iff)
  then show ?thesis
    by (cases edge_mask) (auto simp: py_index_def split: if_splits)
qed

lemma connectivity_loss_zero_coef:
  assumes "connectivity_loss rc graph edge_mask = Inr conn_loss" and "rc ! 2 = 0"
    and "\<forall>v \<in> set (tensor_entries edge_mask). 0 < v \<and> v < 1"
  shows "conn_loss = Some 0"
proof -
  from assms(1) obtain start_node groups_out where
    c: "collect_adjacent edge_mask (zip [0..<length graph] (map fst graph)) start_node [] []
         = Inr groups_out"
    and n: "length groups_out \<noteq> 0"
    and r: "conn_loss = fscale (rc ! 2) (fdiv (mean_all_starts groups_out) (length groups_out))"
    by (auto simp: connectivity_loss_def bind_result_Inr_iff py_index_def Let_def
          split: if_splits simp del: upt_Suc)
  from collect_adjacent_entries [OF c] assms(3)
  have "\<forall>grp \<in> set groups_out. \<forall>v \<in> set grp. 0 < v \<and> v < 1"
    by auto
  from mean_all_starts_finite [OF this] obtain x where "mean_all_starts groups_out = Some x"
    by auto
  with n r assms(2) show ?thesis
    by simp
qed

lemma mask_ent_reg_finite:
  assumes "0 < v" "v < 1"
  shows "\<exists>r. mask_ent_reg v = Some r"
  using assms by (simp add: mask_ent_reg_def flog_def)

lemma fsum_finite:
  assumes "\<forall>v \<in> set vs. 0 < v \<and> v < 1"
  shows "\<exists>r. fold (\<lambda>v a. fadd a v) (map mask_ent_reg vs) (Some a) = Some r"
  using assms
proof (induction vs arbitrary: a)
  case Nil
  then show ?case by simp
next
  case (Cons v vs)
  from Cons.prems mask_ent_reg_finite [of v] obtain r where "mask_ent_reg v = Some r"
    by auto
  with Cons show ?case by simp
qed

lemma loss_zero_coefs:
  assumes "loss masked_pred target edge_mask rc = Inr (cce_loss, size_loss, ent_loss)"
    and "rc ! 0 = 0" "rc ! 1 = 0"
    and "\<forall>v \<in> set (tensor_entries edge_mask). 0 < v \<and> v < 1"
    and "tensor_entries edge_mask \<noteq> []"
  shows "size_loss = Some 0 \<and> ent_loss = Some 0 \<and>
     bind_result (cross_entropy masked_pred target) (\<lambda>c. Inr (Some c)) = Inr cce_loss"
proof -
  from fsum_finite [OF assms(4), of 0] obtain r where
    "fsum (map mask_ent_reg (tensor_entries edge_mask)) = Some r"
    by (auto simp: fsum_def)
  with assms(5) have "fscale 0 (fmean (map mask_ent_reg (tensor_entries edge_mask))) = Some 0"
    by (simp add: fmean_def)
  with assms(1,2,3) show ?thesis
    by (auto simp: loss_def bind_result_Inr_iff py_index_def Let_def split: if_splits)
qed

section \<open>Training\<close>

lemma example_loss_short:
  assumes "length (reg_coefs ex) < 3"
  shows "\<exists>err. example_loss ex m t n g = Inl err"
proof (cases "example_loss ex m t n g")
  case (Inl a)
  then show ?thesis by blast
next
  case (Inr r)
  then have False
    using connectivity_loss_short [OF assms]
    by (auto simp: example_loss_def bind_result_Inr_iff Let_def split: prod.splits)
  then show ?thesis ..
qed

lemma train_epoch_short:
  assumes "length (reg_coefs ex) < 3"
  shows "\<exists>err. train_epoch ex indices e st = Inl err"
proof (cases "train_epoch ex indices e st")
  case (Inl a)
  then show ?thesis by blast
next
  case (Inr r)
  then obtain t acc g' where
    sw: "sweep ex (params st) t indices zero_totals (generator st) = Inr (acc, g')"
    and ne: "indices \<noteq> []"
    by (auto simp: train_epoch_def bind_result_Inr_iff split: if_splits)
  from ne obtain n ns where "indices = n # ns" by (cases indices) auto
  with sw example_loss_short [OF assms, of "params st" t n "generator st"] have False
    by (auto simp: bind_result_Inr_iff)
  then show ?thesis ..
qed

text \<open>
  C5, as the claim states it, fails: with no epoch to run, \<open>train\<close> returns without
  ever reading \<open>reg_coefs\<close>, also with the default pair \<open>(0.05, 1.0)\<close>.
\<close>

theorem train_no_epochs_counterexample:
  "train (toy_explainer\<lparr>reg_coefs := [1 / 20, 1], epochs := 0\<rparr>) [0] toy_state = Inr toy_state"
  by (simp add: train_def)

text \<open>
  C5, amended. When \<open>reg_coefs\<close> has fewer than three elements and there is at least
  one epoch, \<open>train\<close> raises, whatever the index set: the connectivity loss raises
  IndexError at \<open>reg_coefs[2]\<close> for every graph and mask, so no example of the first
  sweep completes, and with no index at all \<open>backward\<close> raises. The default
  \<open>(0.05, 1.0)\<close> is such a \<open>reg_coefs\<close>.
\<close>

theorem train_short_reg_coefs:
  assumes "length (reg_coefs ex) < 3" and "0 < epochs ex"
  shows "connectivity_loss (reg_coefs ex) graph edge_mask = Inl IndexError \<and>
    (\<exists>err. example_loss ex m t n g = Inl err) \<and>
    (\<exists>err. train ex indices st = Inl err)"
proof -
  from assms(2) have "[0..<epochs ex] = 0 # [1..<epochs ex]"
    by (simp add: upt_rec)
  with train_epoch_short [OF assms(1), of indices 0 st]
  have "\<exists>err. train ex indices st = Inl err"
    by (auto simp: train_def)
  with connectivity_loss_short [OF assms(1)] example_loss_short [OF assms(1)]
  show ?thesis by blast
qed

theorem train_short_reg_coefs_witness:
  "connectivity_loss [1 / 20, 1] [(0, 1), (1, 0)] (Vec [1 / 2, 1 / 2]) = Inl IndexError \<and>
   (\<exists>err. train (toy_explainer\<lparr>reg_coefs := [1 / 20, 1], epochs := 10\<rparr>) [0] toy_state
            = Inl err)"
proof -
  have h: "length (reg_coefs (toy_explainer\<lparr>reg_coefs := [1 / 20, 1], epochs := 10\<rparr>)) < 3"
    "0 < epochs (toy_explainer\<lparr>reg_coefs := [1 / 20, 1], epochs := 10\<rparr>)"
    by (simp_all add: toy_fields)
  from train_short_reg_coefs [OF h, of "[(0, 1), (1, 0)]" "Vec [1 / 2, 1 / 2]" _ _ _ _ "[0]" toy_state]
  show ?thesis
    by (simp add: toy_fields)
qed

subsection \<open>The sweep and the list of per-example losses\<close>

lemma summed_Cons: "foldl fadd a (v # vs) = foldl fadd (fadd a v) vs"
  by simp






subsection \<open>The coefficients at zero\<close>

text \<open>
  C9, as the claim states it, fails. With the three coefficients 0 and a mask predictor
  whose logits are 100, the sampled mask of example 0 is exactly 1.0 at both edges (the
  gate input is 20 at the temperature 5). The entropy of such an entry is nan, the
  product of 0 and \<open>log(0)\<close>, and the coefficient 0 times nan is nan: the total loss of
  the example is nan and not its fidelity term, which is \<open>log 2\<close>.
\<close>

theorem zero_coefficients_saturated_mask:
  "example_loss (toy_explainer\<lparr>reg_coefs := [0, 0, 0], epochs := 10\<rparr>) hot_mlp 5 0
       (generator toy_state)
     = Inr ((Some (ln 2), Some 0, None, Some 0), generator toy_state) \<and>
   total_loss (Some (ln 2), Some 0, None, Some 0) = None \<and>
   pred_term (Some (ln 2), Some 0, None, Some 0) = Some (ln 2)"
  using toy_example_loss(3) [where a = 0 and b = 0 and c = 0 and k = 10]
  by (simp add: toy_state_def)

text \<open>
  C9, amended. When the size, entropy and connectivity coefficients are all 0 and
  every entry of the mask sampled for the example is strictly between 0 and 1, an
  example whose loss is computed has size, entropy and connectivity terms equal to 0,
  and its total loss is its fidelity term: the cross-entropy of the prediction under
  the sampled mask against the argmax class of the original prediction. The loss is
  computed on the mask that \<open>sample_example\<close> returns, and the generator is the one
  left by that draw.
\<close>

theorem zero_coefficients_leave_fidelity:
  assumes "example_loss ex m t n g = Inr (l, g1)"
    and "reg_coefs ex ! 0 = 0" "reg_coefs ex ! 1 = 0" "reg_coefs ex ! 2 = 0"
    and "sample_example ex m t n g = Inr (feats, graph, edge_mask, g')"
    and "\<forall>v \<in> set (tensor_entries edge_mask). 0 < v \<and> v < 1"
  shows "g1 = g' \<and> size_term l = Some 0 \<and> ent_term l = Some 0 \<and> conn_term l = Some 0 \<and>
     total_loss l = pred_term l \<and>
     fidelity_term ex feats graph edge_mask n = Inr (pred_term l)"
proof -
  from assms(1) obtain pr c lo conn_loss where
    pr: "example_predictions ex feats graph edge_mask n = Inr pr"
    and am: "argmax (snd pr) = Inr c"
    and lo: "loss (fst pr) [c] edge_mask (reg_coefs ex) = Inr lo"
    and co: "connectivity_loss (reg_coefs ex) graph edge_mask = Inr conn_loss"
    and l: "l = (fst lo, fst (snd lo), snd (snd lo), conn_loss)"
    and g: "g1 = g'"
    unfolding example_loss_def assms(5)
    by (auto simp: bind_result_Inr_iff case_prod_beta)
  from lo have lo': "loss (fst pr) [c] edge_mask (reg_coefs ex)
      = Inr (fst lo, fst (snd lo), snd (snd lo))"
    by simp
  from loss_zero_coefs [OF lo' assms(2,3,6) connectivity_loss_entries [OF co]]
    connectivity_loss_zero_coef [OF co assms(4,6)]
  have z: "fst (snd lo) = Some 0" "snd (snd lo) = Some 0" "conn_loss = Some 0"
    "bind_result (cross_entropy (fst pr) [c]) (\<lambda>c. Inr (Some c)) = Inr (fst lo)"
    by simp_all
  from z(4) obtain r where "Some r = fst lo"
    by (auto simp: bind_result_Inr_iff)
  then have r: "fst lo = Some r"
    by simp
  have "fidelity_term ex feats graph edge_mask n = Inr (fst lo)"
    unfolding fidelity_term_def pr
    by (simp add: case_prod_beta am z(4))
  with z l g r show ?thesis
    by simp
qed

theorem zero_coefficients_leave_fidelity_witness:
  "example_loss (toy_explainer\<lparr>reg_coefs := [0, 0, 0], epochs := 10\<rparr>) toy_mlp 5 0 (\<lambda>i. 1 / 2)
     = Inr ((Some (ln 2), Some 0, Some 0, Some 0), \<lambda>i. 1 / 2) \<and>
   sample_example (toy_explainer\<lparr>reg_coefs := [0, 0, 0], epochs := 10\<rparr>) toy_mlp 5 0 (\<lambda>i. 1 / 2)
     = Inr ((), [(0, 1), (1, 0)], Vec [1 / 2, 1 / 2], \<lambda>i. 1 / 2) \<and>
   total_loss (Some (ln 2), Some 0, Some 0, Some 0)
     = pred_term (Some (ln 2), Some 0, Some 0, Some 0) \<and>
   fidelity_term (toy_explainer\<lparr>reg_coefs := [0, 0, 0], epochs := 10\<rparr>) ()
       [(0, 1), (1, 0)] (Vec [1 / 2, 1 / 2]) 0
     = Inr (pred_term (Some (ln 2), Some 0, Some 0, Some 0))"
proof -
  have e: "example_loss (toy_explainer\<lparr>reg_coefs := [0, 0, 0], epochs := 10\<rparr>) toy_mlp 5 0
      (\<lambda>i. 1 / 2) = Inr ((Some (ln 2), Some 0, Some 0, Some 0), \<lambda>i. 1 / 2)"
    using toy_example_loss(1) [where a = 0 and b = 0 and c = 0 and k = 10 and t = 5] by simp
  have z: "reg_coefs (toy_explainer\<lparr>reg_coefs := [0, 0, 0], epochs := 10\<rparr>) ! 0 = 0"
    "reg_coefs (toy_explainer\<lparr>reg_coefs := [0, 0, 0], epochs := 10\<rparr>) ! 1 = 0"
    "reg_coefs (toy_explainer\<lparr>reg_coefs := [0, 0, 0], epochs := 10\<rparr>) ! 2 = 0"
    by (simp_all add: toy_fields)
  have s: "sample_example (toy_explainer\<lparr>reg_coefs := [0, 0, 0], epochs := 10\<rparr>) toy_mlp 5 0
      (\<lambda>i. 1 / 2) = Inr ((), [(0, 1), (1, 0)], Vec [1 / 2, 1 / 2], \<lambda>i. 1 / 2)"
    by (rule toy_sample_example(1))
  have v: "\<forall>v \<in> set (tensor_entries (Vec [1 / 2, 1 / 2])). 0 < v \<and> v < 1"
    by simp
  from zero_coefficients_leave_fidelity [OF e z s v] e s show ?thesis
    by simp
qed

section \<open>Explanation is repeatable\<close>

text \<open>
  C8. \<open>explain\<close> leaves the state as it found it: the parameters, the optimizer, the
  random generator (inference mode draws no noise) and the recorded calls. A second call
  with the same index, on the state the first call left, returns what the first call
  returned, be it an explanation or an exception.
\<close>

theorem explain_idempotent:
  "snd (explain ex st index) = st \<and>
   explain ex (snd (explain ex st index)) index = explain ex st index"
proof -
  have "snd (explain ex st index) = st"
    by (auto simp: explain_def sample_graph_def Let_def split: sum.splits prod.splits)
  then show ?thesis by simp
qed

theorem explain_idempotent_witness:
  "snd (explain toy_explainer toy_state 0) = toy_state \<and>
   explain toy_explainer (snd (explain toy_explainer toy_state 0)) 0
     = explain toy_explainer toy_state 0"
  by (rule explain_idempotent)

section \<open>The scatter of the mask\<close>

lemma index_put_length [simp]: "length (index_put w t v) = length w"
  unfolding index_put_def by (induction t arbitrary: w) simp_all

lemma index_put_nth:
  "j < length w \<Longrightarrow> index_put w t v ! j = (if j \<in> set t then v else w ! j)"
  unfolding index_put_def
proof (induction t arbitrary: w)
  case Nil
  then show ?case by simp
next
  case (Cons a t)
  have "length (fold (\<lambda>j w. w[j := v]) t (w[a := v])) = length w"
    using index_put_length [of "w[a := v]" t v] by (simp add: index_put_def)
  with Cons show ?case
    by (auto simp: nth_list_update)
qed

lemma index_edge_set: "set (index_edge graph pair) = {j. j < length graph \<and> graph ! j = pair}"
  by (auto simp: index_edge_def)

lemma scatter_result:
  assumes "\<forall>i \<in> set is. i < length graph"
    and "length w = length graph" and "length ms = length graph"
    and "\<forall>i < length graph. \<forall>j < length graph. graph ! i = graph ! j \<longrightarrow> ms ! i = ms ! j"
  shows "\<exists>w'. scatter graph (Vec ms) is w = Inr w' \<and> length w' = length graph \<and>
     (\<forall>j < length graph.
        w' ! j = (if \<exists>i \<in> set is. graph ! i = graph ! j then ms ! j else w ! j))"
  using assms(1,2)
proof (induction "is" arbitrary: w)
  case Nil
  then show ?case by simp
next
  case (Cons i "is")
  let ?w1 = "index_put w (index_edge graph (graph ! i)) (ms ! i)"
  from Cons.prems have i: "i < length graph" and r: "\<forall>i \<in> set is. i < length graph"
    by simp_all
  have l1: "length ?w1 = length graph"
    using Cons.prems(2) by simp
  have n1: "?w1 ! j = (if graph ! i = graph ! j then ms ! j else w ! j)"
    if j: "j < length graph" for j
  proof -
    have "?w1 ! j = (if j \<in> set (index_edge graph (graph ! i)) then ms ! i else w ! j)"
      using j Cons.prems(2) by (simp add: index_put_nth)
    moreover have "j \<in> set (index_edge graph (graph ! i)) \<longleftrightarrow> graph ! i = graph ! j"
      using j by (auto simp: index_edge_set)
    moreover have "ms ! i = ms ! j" if "graph ! i = graph ! j"
      using assms(4) [rule_format, OF i j that] .
    ultimately show ?thesis by simp
  qed
  from Cons.IH [OF r l1] obtain w' where
    s: "scatter graph (Vec ms) is ?w1 = Inr w'" and l: "length w' = length graph"
    and n: "\<And>j. j < length graph \<Longrightarrow>
        w' ! j = (if \<exists>i \<in> set is. graph ! i = graph ! j then ms ! j else ?w1 ! j)"
    by blast
  have "scatter graph (Vec ms) (i # is) w = Inr w'"
    using s i assms(3) by (simp add: py_index_def)
  moreover have "w' ! j = (if \<exists>k \<in> set (i # is). graph ! k = graph ! j then ms ! j else w ! j)"
    if j: "j < length graph" for j
    unfolding n [OF j] n1 [OF j] by simp
  ultimately show ?case
    using l by (intro exI [of _ w'] conjI allI impI) simp_all
qed

lemma scatter_all:
  assumes "length ms = length graph"
    and "\<forall>i < length graph. \<forall>j < length graph. graph ! i = graph ! j \<longrightarrow> ms ! i = ms ! j"
  shows "scatter graph (Vec ms) [0..<length graph] (replicate (length graph) 0) = Inr ms"
proof -
  have "\<forall>i \<in> set [0..<length graph]. i < length graph"
    by simp
  from scatter_result [OF this _ assms, of "replicate (length graph) 0"]
  obtain w' where
    s: "scatter graph (Vec ms) [0..<length graph] (replicate (length graph) 0) = Inr w'"
    and l: "length w' = length graph"
    and n: "\<And>j. j < length graph \<Longrightarrow>
        w' ! j = (if \<exists>i \<in> set [0..<length graph]. graph ! i = graph ! j then ms ! j
                  else replicate (length graph) 0 ! j)"
    by (simp del: set_upt) blast
  have "w' = ms"
  proof (rule nth_equalityI)
    show "length w' = length ms" using l assms(1) by simp
  next
    fix j assume "j < length w'"
    then have j: "j < length graph" using l by simp
    then have "\<exists>i \<in> set [0..<length graph]. graph ! i = graph ! j"
      by (intro bexI [of _ j]) simp_all
    with n [OF j] show "w' ! j = ms ! j" by (simp del: set_upt)
  qed
  with s show ?thesis by simp
qed

lemma index_rows_Inr: "index_rows embeds idxs = Inr rows \<Longrightarrow> \<forall>i \<in> set idxs. i < length embeds"
  by (simp add: index_rows_def split: if_splits)

lemma create_explainer_input_Inr:
  assumes "create_explainer_input kind pair embeds node_id = Inr input_expl"
  shows "input_expl = map (\<lambda>p. embeds ! fst p @ embeds ! snd p
                     @ (if kind = ''node'' then embeds ! node_id else [])) pair"
proof -
  from assms obtain r c where
    r: "index_rows embeds (map fst pair) = Inr r" and c: "index_rows embeds (map snd pair) = Inr c"
    by (auto simp: create_explainer_input_def bind_result_Inr_iff Let_def)
  from index_rows_Inr [OF r] index_rows_Inr [OF c]
  have a: "\<forall>(s, t) \<in> set pair. s < length embeds \<and> t < length embeds"
    by auto
  have b: "kind = ''node'' \<longrightarrow> node_id < length embeds"
    using assms r c
    by (auto simp: create_explainer_input_def bind_result_Inr_iff Let_def py_index_def
          split: if_splits)
  from create_explainer_input_rows [OF a b] assms show ?thesis by simp
qed

lemma explainer_model_Inr:
  "explainer_model m input_expl = Inr logits \<Longrightarrow> logits = map (mlp_row m) input_expl"
  by (simp add: explainer_model_def split: if_splits)

lemma explain_scatter:
  assumes "select_example ex index = Inr (feats, graph, embeds)"
    and "create_explainer_input (task ex) graph embeds index = Inr input_expl"
    and "explainer_model (params st) input_expl = Inr logits"
    and "length graph \<noteq> 1"
  shows "explain ex st index = (Inr (graph, map sigmoid logits), st) \<and>
    length logits = length graph"
proof -
  let ?row = "\<lambda>p. embeds ! fst p @ embeds ! snd p
                   @ (if task ex = ''node'' then embeds ! index else [])"
  let ?ms = "map sigmoid logits"
  have logits: "logits = map (\<lambda>p. mlp_row (params st) (?row p)) graph"
    using create_explainer_input_Inr [OF assms(2)] explainer_model_Inr [OF assms(3)]
    by simp
  then have len: "length ?ms = length graph"
    by simp
  have same: "\<forall>i < length graph. \<forall>j < length graph.
      graph ! i = graph ! j \<longrightarrow> ?ms ! i = ?ms ! j"
    by (simp add: logits)
  have sq: "squeeze ?ms = Vec ?ms"
    using len assms(4) by (simp add: squeeze_def)
  have sc: "scatter graph (Vec ?ms) [0..<length ?ms] (replicate (length graph) 0) = Inr ?ms"
    using scatter_all [OF len same] len by simp
  have sg: "sample_graph (generator st) logits 1 0 False = (?ms, generator st)"
    by (simp add: sample_graph_def)
  show ?thesis
    unfolding explain_def assms(1) 
    by (simp only: bind_result_Inr prod.case assms(2,3) sum.case sg Let_def sq size0.simps sc)
      (simp add: len [simplified])
qed

text \<open>
  C4. For a graph with exactly one edge, \<open>squeeze()\<close> turns the mask of shape
  \<open>(1, 1, 1)\<close> into a tensor of rank 0, and \<open>mask.size(0)\<close> raises IndexError:
  \<open>explain\<close> returns no weight vector, where the claim has a vector with one entry,
  the sigmoid of the logit. This holds for every explainer, state and index whose graph
  has one edge and whose logit is computed. For every other number of edges
  \<open>explain_scatter\<close> shows what the claim says: the weights are the sigmoids of the
  logits, one per edge, in the order of the edge list.
\<close>

theorem explain_one_edge:
  assumes "select_example ex index = Inr (feats, [e], embeds)"
    and "create_explainer_input (task ex) [e] embeds index = Inr input_expl"
    and "explainer_model (params st) input_expl = Inr logits"
  shows "explain ex st index = (Inl IndexError, st)"
proof -
  have "length logits = 1"
    using create_explainer_input_Inr [OF assms(2)] explainer_model_Inr [OF assms(3)]
    by simp
  then have sq: "squeeze (map sigmoid logits) = Scalar (hd (map sigmoid logits))"
    by (simp add: squeeze_def)
  have sg: "sample_graph (generator st) logits 1 0 False = (map sigmoid logits, generator st)"
    by (simp add: sample_graph_def)
  show ?thesis
    unfolding explain_def assms(1)
    by (simp only: bind_result_Inr prod.case assms(2,3) sum.case sg Let_def sq size0.simps
          bind_result_Inl) simp
qed

theorem explain_one_edge_witness:
  "explain toy_explainer toy_state 1 = (Inl IndexError, toy_state)"
proof -
  have a: "select_example toy_explainer 1 = Inr ((), [(0, 1)], [[0], [0]])"
    by (simp add: select_example_def toy_explainer_def toy_model_def py_index_def)
  have b: "create_explainer_input (task toy_explainer) [(0, 1)] [[0], [0]] 1 = Inr [[0, 0]]"
    by (simp add: create_explainer_input_def index_rows_def hcat_def toy_explainer_def)
  have "params toy_state = toy_mlp"
    by (simp add: toy_state_def)
  then have c: "explainer_model (params toy_state) [[0, 0]] = Inr [0]"
    by (simp add: explainer_model_def toy_mlp_row) (simp add: toy_mlp_def)
  from explain_one_edge [OF a b c] show ?thesis .
qed

end
